theory Spec2Isabelle
  imports Main "HOL-Library.Sublist"
begin

section \<open>Exceptions and the platform's URL class\<close>

text \<open>
  The install popup (\<^verbatim>\<open>extension/src/sites/install.js\<close>) throws \<^verbatim>\<open>new Error(message)\<close>
  itself; the platform throws a \<^verbatim>\<open>TypeError\<close> when a URL cannot be parsed or a property
  of \<^verbatim>\<open>undefined\<close> is read. An exception is a value of type \<open>error\<close>, and a function
  that may throw returns \<open>error + 'a\<close>.
\<close>

datatype error = Error string | TypeError string

definition andThen :: "error + 'a \<Rightarrow> ('a \<Rightarrow> error + 'b) \<Rightarrow> error + 'b" where
  "andThen r k = (case r of Inl e \<Rightarrow> Inl e | Inr v \<Rightarrow> k v)"

text \<open>
  The error names of the specification are the messages the code throws at the two
  checks of \<^verbatim>\<open>obtainManifest\<close>.
\<close>

definition CrossOriginStartUrlError :: error where
  "CrossOriginStartUrlError = Error ''Start and document URL are not in the same origin''"

definition OutOfScopeError :: error where
  "OutOfScopeError = Error ''Start URL is not within the scope''"

text \<open>
  The browser's \<^verbatim>\<open>URL\<close> class is not part of the repository. The code reads three
  properties of a parsed URL, and every operation below takes the constructor
  \<^verbatim>\<open>new URL(input, base)\<close> as a parameter \<open>U\<close>: \<open>U input None\<close> is the call
  without a base, \<open>U input (Some base)\<close> the call with one, and \<open>None\<close> as a result is
  the constructor throwing.
\<close>

record url =
  href :: string
  origin :: string
  pathname :: string

type_synonym url_ctor = "string \<Rightarrow> string option \<Rightarrow> url option"

definition newURL :: "url_ctor \<Rightarrow> string \<Rightarrow> string option \<Rightarrow> error + url" where
  "newURL U input base =
     (case U input base of None \<Rightarrow> Inl (TypeError ''Invalid URL'') | Some u \<Rightarrow> Inr u)"

section \<open>The manifest and its resolution\<close>

text \<open>
  The fetched manifest, with the members the popup reads. A member that is absent is
  \<open>None\<close>; the members are typed as the data model has them (strings and sequences of
  strings). Any further member of the JSON object lives in the record's extension.
  After \<^verbatim>\<open>obtainManifest\<close> the same object carries the resolved \<open>start_url\<close> and
  \<open>scope\<close>.
\<close>

record manifest =
  name :: "string option"
  short_name :: "string option"
  description :: "string option"
  categories :: "string list option"
  "keywords" :: "string list option"
  start_url :: "string option"
  scope :: "string option"

text \<open>
  \<^verbatim>\<open>obtainManifest(manifestUrl, documentUrl)\<close>, in three definitions: lines 17 to 22
  (the start URL), lines 26 to 32 (the scope) and the function itself, which fetches,
  runs the two and makes the checks of lines 35 to 40. \<open>fetchJson\<close> is
  \<^verbatim>\<open>fetch(url)\<close> followed by \<^verbatim>\<open>.json()\<close>.

  The test \<^verbatim>\<open>if (manifest.start_url)\<close> is JavaScript truthiness: an absent member and
  the empty string both take the \<^verbatim>\<open>else\<close> branch, which is the pattern
  \<open>Some (c # cs)\<close> against everything else. Both members are resolved with
  \<open>documentUrl\<close> as the base, as lines 18 and 27 have it. \<^verbatim>\<open>startsWith\<close> is
  \<^const>\<open>prefix\<close> on strings.
\<close>

definition resolveStartUrl ::
  "url_ctor \<Rightarrow> 'a manifest_scheme \<Rightarrow> string \<Rightarrow> error + string" where
  "resolveStartUrl U manifest documentUrl =
     (case start_url manifest of
        Some (c # cs) \<Rightarrow> andThen (newURL U (c # cs) (Some documentUrl)) (\<lambda>u. Inr (href u))
      | _ \<Rightarrow> Inr documentUrl)"

definition resolveScope ::
  "url_ctor \<Rightarrow> 'a manifest_scheme \<Rightarrow> string \<Rightarrow> string \<Rightarrow> error + string" where
  "resolveScope U manifest documentUrl startHref =
     (case scope manifest of
        Some (c # cs) \<Rightarrow> andThen (newURL U (c # cs) (Some documentUrl)) (\<lambda>u. Inr (href u))
      | _ \<Rightarrow> andThen (newURL U ''.'' (Some startHref)) (\<lambda>u. Inr (href u)))"

definition obtainManifest ::
  "url_ctor \<Rightarrow> (string \<Rightarrow> error + 'a manifest_scheme) \<Rightarrow> string \<Rightarrow> string
     \<Rightarrow> error + 'a manifest_scheme" where
  "obtainManifest U fetchJson manifestUrl documentUrl =
     andThen (fetchJson manifestUrl) (\<lambda>manifest.
     andThen (resolveStartUrl U manifest documentUrl) (\<lambda>startHref.
     andThen (resolveScope U manifest documentUrl startHref) (\<lambda>scopeHref.
     andThen (newURL U startHref None) (\<lambda>startUrl.
     andThen (newURL U scopeHref None) (\<lambda>scopeUrl.
     andThen (newURL U documentUrl None) (\<lambda>docUrl.
       if origin startUrl \<noteq> origin docUrl
       then Inl (Error ''Start and document URL are not in the same origin'')
       else if origin startUrl \<noteq> origin scopeUrl
               \<or> \<not> prefix (pathname scopeUrl) (pathname startUrl)
       then Inl (Error ''Start URL is not within the scope'')
       else Inr (manifest\<lparr>start_url := Some startHref, scope := Some scopeHref\<rparr>)))))))"

text \<open>
  \<^verbatim>\<open>startUrlValidation\<close>, the \<^verbatim>\<open>input\<close> listener of the start URL field, closed over
  the resolved manifest. \<open>v\<close> is the field's value and \<open>typeMismatch\<close> the browser's
  \<^verbatim>\<open>validity.typeMismatch\<close>. The result is the message handed to
  \<^verbatim>\<open>setCustomValidity\<close>: the empty string means valid. \<^verbatim>\<open>${scope}\<close> in the
  message is the URL's \<open>href\<close>.
\<close>

definition startUrlValidation ::
  "url_ctor \<Rightarrow> 'a manifest_scheme \<Rightarrow> string \<Rightarrow> bool \<Rightarrow> error + string" where
  "startUrlValidation U manifest v typeMismatch =
     (if v = [] then Inr []
      else if typeMismatch then Inr ''Start URL needs to be a valid URL''
      else
        andThen (newURL U v None) (\<lambda>startUrl.
        andThen (case scope manifest of
                   None \<Rightarrow> Inl (TypeError ''Invalid URL'')
                 | Some s \<Rightarrow> newURL U s None) (\<lambda>scopeUrl.
          if origin startUrl \<noteq> origin scopeUrl
             \<or> \<not> prefix (pathname scopeUrl) (pathname startUrl)
          then Inr (''Start URL needs to be within the scope: '' @ href scopeUrl)
          else Inr [])))"

section \<open>A URL constructor for concrete runs\<close>

text \<open>
  Every general theorem below holds for any constructor \<open>U\<close>. To run the code on
  concrete URLs, \<open>simpleURL\<close> implements the URL Standard's parser on a fragment where
  its result is plain to read off: the schemes \<^verbatim>\<open>http\<close> and \<^verbatim>\<open>https\<close>, a host of
  lower-case letters and dots, no credentials and no port, and paths, queries and
  fragments over unreserved characters (so nothing is percent-encoded or case-folded).
  Outside that fragment it returns \<open>None\<close>.
\<close>

record parts =
  u_scheme :: string
  u_host :: string
  u_path :: "string list"
  u_query :: "string option"
  u_fragment :: "string option"

definition hostChar :: "char \<Rightarrow> bool" where
  "hostChar c = (c \<in> set ''abcdefghijklmnopqrstuvwxyz.'')"

definition pathChar :: "char \<Rightarrow> bool" where
  "pathChar c =
     (c \<in> set ''abcdefghijklmnopqrstuvwxyzABCDEFGHIJKLMNOPQRSTUVWXYZ0123456789-._~/'')"

definition queryChar :: "char \<Rightarrow> bool" where
  "queryChar c = (pathChar c \<or> c \<in> set ''=&'')"

fun stripPrefix :: "string \<Rightarrow> string \<Rightarrow> string option" where
  "stripPrefix [] s = Some s"
| "stripPrefix (p # ps) [] = None"
| "stripPrefix (p # ps) (c # cs) = (if p = c then stripPrefix ps cs else None)"

fun splitSlash :: "string \<Rightarrow> string list" where
  "splitSlash [] = [[]]"
| "splitSlash (c # cs) =
     (if c = CHR ''/'' then [] # splitSlash cs
      else (case splitSlash cs of [] \<Rightarrow> [[c]] | x # xs \<Rightarrow> (c # x) # xs))"

text \<open>
  The path state of the parser: a \<^verbatim>\<open>..\<close> segment drops the last segment collected so
  far, a \<^verbatim>\<open>.\<close> segment is skipped, and either of them in last position leaves an empty
  last segment (a trailing slash).
\<close>

fun removeDots :: "string list \<Rightarrow> string list \<Rightarrow> string list" where
  "removeDots acc [] = acc"
| "removeDots acc [s] =
     (if s = ''..'' then butlast acc @ [[]]
      else if s = ''.'' then acc @ [[]]
      else acc @ [s])"
| "removeDots acc (s # t) =
     (if s = ''..'' then removeDots (butlast acc) t
      else if s = ''.'' then removeDots acc t
      else removeDots (acc @ [s]) t)"

text \<open>Splits \<^verbatim>\<open>path?query#fragment\<close> and checks the characters of each part.\<close>

definition splitTail :: "string \<Rightarrow> (string \<times> string option \<times> string option) option" where
  "splitTail s =
     (let beforeHash = takeWhile (\<lambda>c. c \<noteq> CHR ''#'') s;
          hashPart = dropWhile (\<lambda>c. c \<noteq> CHR ''#'') s;
          p = takeWhile (\<lambda>c. c \<noteq> CHR ''?'') beforeHash;
          queryPart = dropWhile (\<lambda>c. c \<noteq> CHR ''?'') beforeHash;
          q = (if queryPart = [] then None else Some (tl queryPart));
          f = (if hashPart = [] then None else Some (tl hashPart))
      in if list_all pathChar p
            \<and> list_all queryChar (case q of None \<Rightarrow> [] | Some x \<Rightarrow> x)
            \<and> list_all queryChar (case f of None \<Rightarrow> [] | Some x \<Rightarrow> x)
         then Some (p, q, f) else None)"

definition parseAuthority :: "string \<Rightarrow> string \<Rightarrow> parts option" where
  "parseAuthority sch s =
     (let h = takeWhile (\<lambda>c. c \<notin> set ''/?#'') s;
          t = dropWhile (\<lambda>c. c \<notin> set ''/?#'') s
      in if h = [] \<or> \<not> list_all hostChar h then None
         else (case splitTail t of
                 None \<Rightarrow> None
               | Some (p, q, f) \<Rightarrow>
                   Some \<lparr>u_scheme = sch, u_host = h,
                         u_path = removeDots [] (tl (splitSlash (if p = [] then ''/'' else p))),
                         u_query = q, u_fragment = f\<rparr>))"

definition parseAbsolute :: "string \<Rightarrow> parts option" where
  "parseAbsolute s =
     (case stripPrefix ''https://'' s of
        Some r \<Rightarrow> parseAuthority ''https'' r
      | None \<Rightarrow> (case stripPrefix ''http://'' s of
                  Some r \<Rightarrow> parseAuthority ''http'' r
                | None \<Rightarrow> None))"

definition isAbsolute :: "string \<Rightarrow> bool" where
  "isAbsolute s = (stripPrefix ''https://'' s \<noteq> None \<or> stripPrefix ''http://'' s \<noteq> None)"

definition resolveRelative :: "string \<Rightarrow> parts \<Rightarrow> parts option" where
  "resolveRelative s b =
     (case stripPrefix ''//'' s of
        Some r \<Rightarrow> parseAuthority (u_scheme b) r
      | None \<Rightarrow>
          (case splitTail s of
             None \<Rightarrow> None
           | Some (p, q, f) \<Rightarrow>
               if p = [] then
                 Some (b\<lparr>u_query := (if q = None then u_query b else q), u_fragment := f\<rparr>)
               else if hd p = CHR ''/'' then
                 Some (b\<lparr>u_path := removeDots [] (tl (splitSlash p)),
                          u_query := q, u_fragment := f\<rparr>)
               else
                 Some (b\<lparr>u_path := removeDots (butlast (u_path b)) (splitSlash p),
                          u_query := q, u_fragment := f\<rparr>)))"

definition serialise :: "parts \<Rightarrow> url" where
  "serialise u =
     (let og = u_scheme u @ ''://'' @ u_host u;
          p = concat (map (\<lambda>s. CHR ''/'' # s) (u_path u))
      in \<lparr>href = og @ p
                  @ (case u_query u of None \<Rightarrow> [] | Some q \<Rightarrow> CHR ''?'' # q)
                  @ (case u_fragment u of None \<Rightarrow> [] | Some f \<Rightarrow> CHR ''#'' # f),
          origin = og, pathname = p\<rparr>)"

definition simpleURL :: url_ctor where
  "simpleURL input base =
     (if isAbsolute input then map_option serialise (parseAbsolute input)
      else (case base of
              None \<Rightarrow> None
            | Some b \<Rightarrow>
                (case parseAbsolute b of
                   None \<Rightarrow> None
                 | Some bp \<Rightarrow> map_option serialise (resolveRelative input bp))))"

section \<open>The native peer\<close>

text \<open>
  What the peer sends back is JSON, and the popup reads it as a JavaScript value. A
  number is kept as the string that JavaScript prints it as, the one thing the popup
  can do with it. An object is the list of its members as the JSON text has them, where
  a later member of the same name replaces an earlier one.
\<close>

datatype jsval =
  JUndefined | JNull | JBool bool | JNumber string | JString string
  | JArray "jsval list" | JObject "(string \<times> jsval) list"

fun join :: "string \<Rightarrow> string list \<Rightarrow> string" where
  "join sep [] = []"
| "join sep [x] = x"
| "join sep (x # y # ys) = x @ sep @ join sep (y # ys)"

text \<open>The results of a list of steps, up to the first exception.\<close>

fun collect :: "(error + 'a) list \<Rightarrow> error + 'a list" where
  "collect [] = Inr []"
| "collect (Inl e # rs) = Inl e"
| "collect (Inr v # rs) = (case collect rs of Inl e \<Rightarrow> Inl e | Inr vs \<Rightarrow> Inr (v # vs))"

text \<open>
  JavaScript's conversion of a value to a string, as \<^verbatim>\<open>new Error(v)\<close>, a template
  literal and \<^verbatim>\<open>new Option(text, v)\<close> do it. An array joins the conversions of its
  elements. An object is converted by its \<^verbatim>\<open>toString\<close> method: an object from JSON
  inherits the one that answers \<^verbatim>\<open>[object Object]\<close>, unless it has a member of that
  name itself, which is never a function, and then the conversion throws a
  \<^verbatim>\<open>TypeError\<close> (the inherited \<^verbatim>\<open>valueOf\<close> gives the object back, and a member
  \<^verbatim>\<open>valueOf\<close> is no function either). The text of a \<^verbatim>\<open>TypeError\<close> is the
  platform's; no theorem below depends on it.
\<close>

fun toString :: "jsval \<Rightarrow> error + string" where
  "toString JUndefined = Inr ''undefined''"
| "toString JNull = Inr ''null''"
| "toString (JBool b) = Inr (if b then ''true'' else ''false'')"
| "toString (JNumber n) = Inr n"
| "toString (JString s) = Inr s"
| "toString (JArray xs) =
     (case collect (map (\<lambda>x. if x = JUndefined \<or> x = JNull then Inr [] else toString x) xs) of
        Inl e \<Rightarrow> Inl e
      | Inr ss \<Rightarrow> Inr (join '','' ss))"
| "toString (JObject kvs) =
     (if ''toString'' \<in> set (map fst kvs)
      then Inl (TypeError ''Cannot convert object to primitive value'')
      else Inr ''[object Object]'')"

text \<open>
  The message of \<^verbatim>\<open>new Error(v)\<close>: an undefined argument leaves it empty, any other
  is converted.
\<close>

definition errorMessage :: "jsval \<Rightarrow> error + string" where
  "errorMessage v = (if v = JUndefined then Inr [] else toString v)"

fun message :: "error \<Rightarrow> string" where
  "message (Error m) = m"
| "message (TypeError m) = m"

text \<open>
  Reading the property \<^verbatim>\<open>type\<close> or \<^verbatim>\<open>data\<close> of a response. On \<^verbatim>\<open>null\<close> and
  \<^verbatim>\<open>undefined\<close> that throws; on an object it is the member, or \<^verbatim>\<open>undefined\<close>
  without one; on any other value it is \<^verbatim>\<open>undefined\<close>, since no prototype has a
  property of either name.
\<close>

fun property :: "jsval \<Rightarrow> string \<Rightarrow> error + jsval" where
  "property JUndefined k = Inl (TypeError ''response is undefined'')"
| "property JNull k = Inl (TypeError ''response is null'')"
| "property (JObject kvs) k =
     Inr (case map_of (rev kvs) k of None \<Rightarrow> JUndefined | Some v \<Rightarrow> v)"
| "property v k = Inr JUndefined"

text \<open>The \<^verbatim>\<open>params\<close> object of the \<^verbatim>\<open>InstallSite\<close> command.\<close>

record params =
  p_manifest_url :: string
  p_document_url :: string
  p_start_url :: "string option"
  p_profile :: "string option"
  p_name :: "string option"
  p_description :: "string option"
  p_categories :: "string list"
  p_keywords :: "string list"

datatype command =
  GetSiteList | GetProfileList
  | CreateProfile "string option" "string option"
  | InstallSite params

text \<open>
  \<^verbatim>\<open>browser.runtime.sendNativeMessage('firefoxpwa', command)\<close>: the value the peer
  answers with, or \<open>Inl\<close> for a rejected promise.
\<close>

type_synonym native = "command \<Rightarrow> error + jsval"



section \<open>The form\<close>

text \<open>
  The state the listeners of \<^verbatim>\<open>initializeForm\<close> read and write: the submit button,
  the error toast, the profile select with its options (text and value), the variable
  \<^verbatim>\<open>lastProfileSelection\<close>, the create button and modal of the new-profile dialog, the
  inputs of the form and the result of \<^verbatim>\<open>form.checkValidity()\<close>.
\<close>

record popup =
  submit_disabled :: bool
  submit_innerText :: string
  error_text :: string
  error_toast_shown :: bool
  close_scheduled :: bool
  profile_options :: "(string \<times> string) list"
  profile_value :: string
  lastProfileSelection :: string
  create_disabled :: bool
  create_innerText :: string
  modal_shown :: bool
  new_profile_name :: string
  new_profile_description :: string
  web_app_start_url :: string
  web_app_name :: string
  web_app_description :: string
  web_app_categories :: "string list"
  web_app_keywords :: "string list"
  form_valid :: bool

text \<open>\<^verbatim>\<open>value || null\<close> on the value of an input.\<close>

definition orNull :: "string \<Rightarrow> string option" where
  "orNull s = (if s = [] then None else Some s)"

text \<open>
  Assigning to \<^verbatim>\<open>select.value\<close> selects the option with that value; with no such
  option nothing is selected and the value reads as the empty string.
\<close>

definition setProfileValue :: "string \<Rightarrow> popup \<Rightarrow> popup" where
  "setProfileValue v st =
     st\<lparr>profile_value := (if v \<in> snd ` set (profile_options st) then v else [])\<rparr>"

text \<open>
  What \<^verbatim>\<open>initializeForm\<close> does to the form once the manifest and the lists are
  there (lines 109 to 123 and 173 to 175), \<open>st\<close> being the form as the markup has it:
  the tags of \<^verbatim>\<open>manifest.categories || []\<close> and \<^verbatim>\<open>manifest.keywords || []\<close> are
  added and selected, one option of the profile select is added per profile
  (\<open>(ulid, name)\<close> pairs, the text being \<^verbatim>\<open>profile.name || profile.ulid\<close>), then the
  option that creates a profile; \<^verbatim>\<open>lastProfileSelection\<close> starts as the value of the
  select, which shows its first option; the submit button is enabled.
\<close>

definition initializeForm ::
  "'a manifest_scheme \<Rightarrow> (string \<times> string option) list \<Rightarrow> popup \<Rightarrow> popup" where
  "initializeForm manifest profiles st =
     (let opts = profile_options st
                 @ map (\<lambda>(ulid, nm). (case nm of Some (c # cs) \<Rightarrow> c # cs | _ \<Rightarrow> ulid, ulid))
                       profiles
                 @ [(''Create a new profile'', ''create-new-profile'')];
          v = (if profile_options st = [] then snd (hd opts) else profile_value st)
      in st\<lparr>web_app_categories :=
               web_app_categories st @ (case categories manifest of None \<Rightarrow> [] | Some cs \<Rightarrow> cs),
             web_app_keywords :=
               web_app_keywords st @ (case keywords manifest of None \<Rightarrow> [] | Some ks \<Rightarrow> ks),
             profile_options := opts, profile_value := v, lastProfileSelection := v,
             submit_disabled := False, submit_innerText := ''Install web app''\<rparr>)"

text \<open>The \<^verbatim>\<open>change\<close> listener of the profile select, run after the select changed.\<close>

definition profile_change :: "popup \<Rightarrow> popup" where
  "profile_change st =
     (if profile_value st \<noteq> ''create-new-profile''
      then st\<lparr>lastProfileSelection := profile_value st\<rparr>
      else st\<lparr>modal_shown := True\<rparr>)"

text \<open>The user picking the option with value \<open>v\<close>: the select changes, the listener runs.\<close>

definition selectProfile :: "string \<Rightarrow> popup \<Rightarrow> popup" where
  "selectProfile v st = profile_change (setProfileValue v st)"

text \<open>The \<^verbatim>\<open>click\<close> listener of \<^verbatim>\<open>new-profile-cancel\<close>.\<close>

definition new_profile_cancel :: "popup \<Rightarrow> popup" where
  "new_profile_cancel st = setProfileValue (lastProfileSelection st) st"

text \<open>
  The white space that HTML strips and collapses in the text of an option.
\<close>

definition asciiWhitespace :: "char \<Rightarrow> bool" where
  "asciiWhitespace c = (c \<in> set [CHR 0x09, CHR 0x0A, CHR 0x0C, CHR 0x0D, CHR 0x20])"

fun splitWhitespace :: "string \<Rightarrow> string list" where
  "splitWhitespace [] = [[]]"
| "splitWhitespace (c # cs) =
     (if asciiWhitespace c then [] # splitWhitespace cs
      else (case splitWhitespace cs of [] \<Rightarrow> [[c]] | w # ws \<Rightarrow> (c # w) # ws))"

definition stripAndCollapse :: "string \<Rightarrow> string" where
  "stripAndCollapse s = join '' '' (filter (\<lambda>w. w \<noteq> []) (splitWhitespace s))"

text \<open>
  The \<^verbatim>\<open>click\<close> listener of \<^verbatim>\<open>new-profile-create\<close>. The \<^verbatim>\<open>try\<close> block yields the
  new identifier or, caught, the error that is then shown.
  \<^verbatim>\<open>new Option(name, id, true, true)\<close>, after the \<^verbatim>\<open>try\<close> block, converts a
  \<^verbatim>\<open>null\<close> name to the text \<^verbatim>\<open>null\<close>. An undefined \<open>id\<close> leaves the option without
  a value attribute, so that its value is its text, stripped and collapsed; any other
  \<open>id\<close> is converted to a string, and where that throws the listener ends with the
  exception, before the option is added and the modal hidden.
\<close>

definition new_profile_create :: "native \<Rightarrow> popup \<Rightarrow> popup \<times> error option" where
  "new_profile_create sendNativeMessage st =
     (let nm = orNull (new_profile_name st);
          ds = orNull (new_profile_description st);
          st1 = st\<lparr>create_disabled := True, create_innerText := ''Creating...''\<rparr>;
          attempt =
            andThen (sendNativeMessage (CreateProfile nm ds)) (\<lambda>response.
            andThen (property response ''type'') (\<lambda>t.
              if t = JString ''Error''
              then andThen (property response ''data'') (\<lambda>d.
                   andThen (errorMessage d) (\<lambda>msg. Inl (Error msg)))
              else if t \<noteq> JString ''ProfileCreated''
              then andThen (toString t) (\<lambda>s.
                     Inl (Error (''Received invalid response type: '' @ s)))
              else property response ''data''));
          st2 = (case attempt of
                   Inr d \<Rightarrow> st1\<lparr>error_toast_shown := False\<rparr>
                 | Inl e \<Rightarrow> st1\<lparr>error_text := message e, error_toast_shown := True\<rparr>);
          ident = (case attempt of Inr d \<Rightarrow> d | Inl e \<Rightarrow> JUndefined);
          txt = (case nm of None \<Rightarrow> ''null'' | Some n \<Rightarrow> n)
      in case (if ident = JUndefined then Inr (stripAndCollapse txt) else toString ident) of
           Inl e \<Rightarrow> (st2, Some e)
         | Inr val \<Rightarrow>
             (st2\<lparr>profile_options := profile_options st2 @ [(txt, val)],
                  profile_value := val, modal_shown := False\<rparr>, None))"

text \<open>
  \<^verbatim>\<open>submit.onclick\<close>, lines 246 to 274: the \<^verbatim>\<open>params\<close> of the \<^verbatim>\<open>InstallSite\<close>
  command. \<^verbatim>\<open>toString()\<close> of an array of strings joins them with commas, and
  \<^verbatim>\<open>manifest.categories.toString()\<close> throws a \<^verbatim>\<open>TypeError\<close> when the member is absent.
\<close>

definition submit_params ::
  "'a manifest_scheme \<Rightarrow> string \<Rightarrow> string \<Rightarrow> popup \<Rightarrow> error + params" where
  "submit_params manifest manifestUrl documentUrl st =
     (let userCategories = web_app_categories st;
          userKeywords = web_app_keywords st
      in case categories manifest of
           None \<Rightarrow> Inl (TypeError ''manifestCategories is undefined'')
         | Some manifestCategories \<Rightarrow>
            (case keywords manifest of
               None \<Rightarrow> Inl (TypeError ''manifestKeywords is undefined'')
             | Some manifestKeywords \<Rightarrow>
                 Inr \<lparr>p_manifest_url = manifestUrl, p_document_url = documentUrl,
                      p_start_url = orNull (web_app_start_url st),
                      p_profile = orNull (profile_value st),
                      p_name = orNull (web_app_name st),
                      p_description = orNull (web_app_description st),
                      p_categories =
                        (if join '','' userCategories \<noteq> join '','' manifestCategories
                         then userCategories else []),
                      p_keywords =
                        (if join '','' userKeywords \<noteq> join '','' manifestKeywords
                         then userKeywords else [])\<rparr>))"

text \<open>
  \<^verbatim>\<open>submit.onclick\<close>. The result is the form afterwards and, when the listener ends
  with an exception nothing catches, that exception: lines 246 to 259 are outside the
  \<^verbatim>\<open>try\<close> block.
\<close>

definition submit_onclick ::
  "native \<Rightarrow> 'a manifest_scheme \<Rightarrow> string \<Rightarrow> string \<Rightarrow> popup \<Rightarrow> popup \<times> error option" where
  "submit_onclick sendNativeMessage manifest manifestUrl documentUrl st =
     (if \<not> form_valid st then (st, None)
      else
        (let st1 = st\<lparr>submit_disabled := True, submit_innerText := ''Installing web app...''\<rparr>
         in case submit_params manifest manifestUrl documentUrl st1 of
              Inl e \<Rightarrow> (st1, Some e)
            | Inr ps \<Rightarrow>
               (case andThen (sendNativeMessage (InstallSite ps)) (\<lambda>response.
                     andThen (property response ''type'') (\<lambda>t.
                       if t = JString ''Error''
                       then andThen (property response ''data'') (\<lambda>d.
                            andThen (errorMessage d) (\<lambda>msg. Inl (Error msg)))
                       else if t \<noteq> JString ''SiteInstalled''
                       then andThen (toString t) (\<lambda>s.
                              Inl (Error (''Received invalid response type: '' @ s)))
                       else Inr ())) of
                  Inr _ \<Rightarrow>
                    (st1\<lparr>error_toast_shown := False, submit_disabled := True,
                         submit_innerText := ''Web app installed!'',
                         close_scheduled := True\<rparr>, None)
                | Inl e \<Rightarrow>
                    (st1\<lparr>error_text := message e, error_toast_shown := True\<rparr>, None))))"

section \<open>The Protocol Client's contract\<close>

text \<open>
  The two failures of a command, under the specification's names, with the messages the
  code gives them.
\<close>

definition NativePeerError :: "string \<Rightarrow> error" where
  "NativePeerError msg = Error msg"

definition ProtocolMismatchError :: "string \<Rightarrow> error" where
  "ProtocolMismatchError received = Error (''Received invalid response type: '' @ received)"


text \<open>
  What the four places that send a command do with the response, \<open>expected\<close> being the
  tag of the place.
\<close>

definition expectResponse :: "string \<Rightarrow> jsval \<Rightarrow> error + jsval" where
  "expectResponse expected response =
     andThen (property response ''type'') (\<lambda>t.
       if t = JString ''Error''
       then andThen (property response ''data'') (\<lambda>d.
            andThen (errorMessage d) (\<lambda>msg. Inl (NativePeerError msg)))
       else if t \<noteq> JString expected
       then andThen (toString t) (\<lambda>s. Inl (ProtocolMismatchError s))
       else property response ''data'')"


text \<open>
  A URL string is in serialised form, for a constructor \<open>U\<close> and a base, when resolving
  it gives a URL whose \<open>href\<close> is the string itself.
\<close>

definition resolvesToItself :: "url_ctor \<Rightarrow> string \<Rightarrow> string \<Rightarrow> bool" where
  "resolvesToItself U s base = (case U s (Some base) of None \<Rightarrow> False | Some u \<Rightarrow> href u = s)"

section \<open>Concrete inputs\<close>

text \<open>
  The inputs of the concrete runs below: a manifest without any member, a server that
  answers one URL with a given manifest, the response object with a type and data, a
  peer that answers every command with a given response, one that rejects every
  command, and the form as the markup has it before
  \<^verbatim>\<open>initializeForm\<close> runs.
\<close>

definition emptyManifest :: manifest where
  "emptyManifest =
     \<lparr>name = None, short_name = None, description = None, categories = None,
      keywords = None, start_url = None, scope = None\<rparr>"

definition serve ::
  "'a manifest_scheme \<Rightarrow> string \<Rightarrow> string \<Rightarrow> error + 'a manifest_scheme" where
  "serve m at u =
     (if u = at then Inr m
      else Inl (TypeError ''NetworkError when attempting to fetch resource.''))"

definition reply :: "string \<Rightarrow> jsval \<Rightarrow> jsval" where
  "reply t d = JObject [(''type'', JString t), (''data'', d)]"

definition replies :: "jsval \<Rightarrow> native" where
  "replies r cmd = Inr r"

definition rejects :: "string \<Rightarrow> native" where
  "rejects msg cmd = Inl (Error msg)"

definition markup :: popup where
  "markup =
     \<lparr>submit_disabled = True, submit_innerText = [],
      error_text = [], error_toast_shown = False, close_scheduled = False,
      profile_options = [], profile_value = [], lastProfileSelection = [],
      create_disabled = False, create_innerText = [], modal_shown = False,
      new_profile_name = [], new_profile_description = [],
      web_app_start_url = [], web_app_name = [], web_app_description = [],
      web_app_categories = [], web_app_keywords = [], form_valid = True\<rparr>"

text \<open>
  The form after \<^verbatim>\<open>initializeForm\<close> for a manifest and the one profile \<^verbatim>\<open>01\<close>,
  named \<^verbatim>\<open>Default\<close>. Then the form after the user picked the option that creates a
  profile, typed the name \<^verbatim>\<open>Work\<close> and confirmed, the peer answering with the new
  identifier \<^verbatim>\<open>02\<close>.
\<close>

definition formReady :: "manifest \<Rightarrow> popup" where
  "formReady m = initializeForm m [(''01'', Some ''Default'')] markup"

definition profileCreated :: popup where
  "profileCreated =
     fst (new_profile_create (replies (reply ''ProfileCreated'' (JString ''02'')))
            ((selectProfile ''create-new-profile'' (formReady emptyManifest))
               \<lparr>new_profile_name := ''Work''\<rparr>))"

section \<open>Running the sequencing and the checks of \<^verbatim>\<open>obtainManifest\<close>\<close>

lemma andThen_Inr [simp]: "andThen (Inr v) k = k v"
  by (simp add: andThen_def)

lemma andThen_Inl [simp]: "andThen (Inl e) k = Inl e"
  by (simp add: andThen_def)

lemma andThen_Inr_iff: "andThen r k = Inr v \<longleftrightarrow> (\<exists>x. r = Inr x \<and> k x = Inr v)"
  by (cases r) simp_all

lemma newURL_Some [simp]: "U s b = Some u \<Longrightarrow> newURL U s b = Inr u"
  by (simp add: newURL_def)

lemma newURL_None [simp]: "U s b = None \<Longrightarrow> newURL U s b = Inl (TypeError ''Invalid URL'')"
  by (simp add: newURL_def)

lemma newURL_Inr_iff: "newURL U s b = Inr u \<longleftrightarrow> U s b = Some u"
  by (simp add: newURL_def split: option.splits)

text \<open>Once the three URLs parse, the outcome is decided by the two checks, in order.\<close>

lemma obtainManifest_run:
  assumes "fetchJson manifestUrl = Inr m"
    and "resolveStartUrl U m documentUrl = Inr sh"
    and "resolveScope U m documentUrl sh = Inr sch"
    and "U sh None = Some s" and "U sch None = Some sc" and "U documentUrl None = Some d"
  shows "obtainManifest U fetchJson manifestUrl documentUrl =
           (if origin s \<noteq> origin d then Inl CrossOriginStartUrlError
            else if origin s \<noteq> origin sc \<or> \<not> prefix (pathname sc) (pathname s)
            then Inl OutOfScopeError
            else Inr (m\<lparr>start_url := Some sh, scope := Some sch\<rparr>))"
  using assms
  by (simp add: obtainManifest_def CrossOriginStartUrlError_def OutOfScopeError_def)

text \<open>A manifest that is returned went through every step and passed both checks.\<close>

lemma obtainManifest_accepted:
  assumes "obtainManifest U fetchJson manifestUrl documentUrl = Inr m'"
  obtains m sh sch s sc d where
    "fetchJson manifestUrl = Inr m"
    "resolveStartUrl U m documentUrl = Inr sh"
    "resolveScope U m documentUrl sh = Inr sch"
    "U sh None = Some s" "U sch None = Some sc" "U documentUrl None = Some d"
    "origin s = origin d" "origin s = origin sc" "prefix (pathname sc) (pathname s)"
    "m' = m\<lparr>start_url := Some sh, scope := Some sch\<rparr>"
  using assms
  unfolding obtainManifest_def andThen_Inr_iff newURL_Inr_iff
  by (auto split: if_splits)

section \<open>The four places that send a command\<close>

text \<open>The parameters of the command do not depend on the state of the submit button.\<close>

lemma submit_params_button [simp]:
  "submit_params m mu du (st\<lparr>submit_disabled := a, submit_innerText := b\<rparr>)
     = submit_params m mu du st"
  by (simp add: submit_params_def Let_def split: option.splits)

text \<open>
  Reading a property throws only on \<^verbatim>\<open>null\<close> and \<^verbatim>\<open>undefined\<close>, whatever the
  property is.
\<close>

lemma property_data_after_type:
  "property r ''type'' = Inr t \<Longrightarrow> \<exists>d. property r ''data'' = Inr d"
  by (cases r) simp_all

lemma property_type_fails:
  "property r ''type'' = Inl e \<Longrightarrow> property r k = Inl e"
  by (cases r) simp_all



text \<open>The check of \<^verbatim>\<open>submit.onclick\<close> is the same, without the data being read.\<close>

lemma submit_check:
  "andThen (property r ''type'') (\<lambda>t.
     if t = JString ''Error''
     then andThen (property r ''data'') (\<lambda>d.
          andThen (errorMessage d) (\<lambda>msg. Inl (Error msg)))
     else if t \<noteq> JString ''SiteInstalled''
     then andThen (toString t) (\<lambda>s. Inl (Error (''Received invalid response type: '' @ s)))
     else Inr ())
   = andThen (expectResponse ''SiteInstalled'' r) (\<lambda>d. Inr ())"
proof (cases "property r ''type''")
  case (Inl e)
  then show ?thesis by (simp add: expectResponse_def)
next
  case (Inr t)
  then obtain d where d: "property r ''data'' = Inr d"
    using property_data_after_type by blast
  show ?thesis
  proof (cases "t = JString ''Error''")
    case True
    with Inr d show ?thesis
      by (cases "errorMessage d") (simp_all add: expectResponse_def NativePeerError_def)
  next
    case False
    with Inr d show ?thesis
      by (cases "toString t") (simp_all add: expectResponse_def ProtocolMismatchError_def)
  qed
qed

lemma submit_onclick_expectResponse:
  assumes "form_valid st" and "submit_params m mu du st = Inr ps"
  shows "submit_onclick sendNativeMessage m mu du st =
           (let st1 = st\<lparr>submit_disabled := True, submit_innerText := ''Installing web app...''\<rparr>
            in case andThen (sendNativeMessage (InstallSite ps)) (expectResponse ''SiteInstalled'') of
                 Inr d \<Rightarrow> (st1\<lparr>error_toast_shown := False, submit_disabled := True,
                                submit_innerText := ''Web app installed!'',
                                close_scheduled := True\<rparr>, None)
               | Inl e \<Rightarrow> (st1\<lparr>error_text := message e, error_toast_shown := True\<rparr>, None))"
proof (cases "sendNativeMessage (InstallSite ps)")
  case (Inl e)
  with assms show ?thesis by (simp add: submit_onclick_def Let_def)
next
  case (Inr r)
  with assms show ?thesis
    by (cases "expectResponse ''SiteInstalled'' r")
       (simp_all add: submit_onclick_def Let_def submit_check)
qed


section \<open>C1: the base of the start URL\<close>

text \<open>
  C1 says that a \<open>start_url\<close> that is present is resolved against the manifest URL, not
  the document URL, and that an absent one defaults to the document URL. Line 18 passes
  \<open>documentUrl\<close> as the base, against the comment of line 15. With the manifest at
  \<^verbatim>\<open>https://x.test/static/manifest.json\<close>, the page at \<^verbatim>\<open>https://x.test/app/page\<close>
  and \<^verbatim>\<open>start_url: "index.html"\<close>, the code returns
  \<^verbatim>\<open>https://x.test/app/index.html\<close>, where resolving against the manifest URL gives
  \<^verbatim>\<open>https://x.test/static/index.html\<close>.
\<close>

theorem start_url_resolved_against_document_url:
  "obtainManifest simpleURL
     (serve (emptyManifest\<lparr>start_url := Some ''index.html''\<rparr>)
        ''https://x.test/static/manifest.json'')
     ''https://x.test/static/manifest.json'' ''https://x.test/app/page''
   = Inr (emptyManifest\<lparr>start_url := Some ''https://x.test/app/index.html'',
                         scope := Some ''https://x.test/app/''\<rparr>)
   \<and> map_option href (simpleURL ''index.html'' (Some ''https://x.test/static/manifest.json''))
     = Some ''https://x.test/static/index.html''"
  by code_simp

text \<open>
  So the start URL the code returns is not the start URL resolved against the manifest
  URL.
\<close>

theorem start_url_resolved_against_document_url_witness:
  "map_sum id start_url
     (obtainManifest simpleURL
        (serve (emptyManifest\<lparr>start_url := Some ''index.html''\<rparr>)
           ''https://x.test/static/manifest.json'')
        ''https://x.test/static/manifest.json'' ''https://x.test/app/page'')
   \<noteq> Inr (map_option href
            (simpleURL ''index.html'' (Some ''https://x.test/static/manifest.json'')))"
  using start_url_resolved_against_document_url by auto

section \<open>C2: scope containment\<close>

text \<open>
  C2: scope containment succeeds exactly when the start URL and the scope have the same
  origin and the scope's pathname is a prefix, as a string, of the start URL's pathname;
  otherwise it fails with the out-of-scope error; and every manifest accepted at load
  satisfies it. The three parts of the theorem are the validation of a user edit (a
  non-empty value that the browser takes for a URL), the check at load once the origin
  check against the document has passed, and the invariant of an accepted manifest.
\<close>

theorem scope_containment:
  "(v \<noteq> [] \<longrightarrow> U v None = Some s \<longrightarrow> scope m = Some x \<longrightarrow> U x None = Some sc \<longrightarrow>
      startUrlValidation U m v False =
        (if origin s = origin sc \<and> prefix (pathname sc) (pathname s) then Inr []
         else Inr (''Start URL needs to be within the scope: '' @ href sc)))
   \<and> (fetchJson mu = Inr m0 \<longrightarrow> resolveStartUrl U m0 du = Inr sh \<longrightarrow>
      resolveScope U m0 du sh = Inr sch \<longrightarrow>
      U sh None = Some s1 \<longrightarrow> U sch None = Some sc1 \<longrightarrow> U du None = Some d \<longrightarrow>
      origin s1 = origin d \<longrightarrow>
      obtainManifest U fetchJson mu du =
        (if origin s1 = origin sc1 \<and> prefix (pathname sc1) (pathname s1)
         then Inr (m0\<lparr>start_url := Some sh, scope := Some sch\<rparr>)
         else Inl OutOfScopeError))
   \<and> (obtainManifest U fetchJson mu du = Inr m' \<longrightarrow>
        (\<exists>a b s2 sc2. start_url m' = Some a \<and> scope m' = Some b
           \<and> U a None = Some s2 \<and> U b None = Some sc2
           \<and> origin s2 = origin sc2 \<and> prefix (pathname sc2) (pathname s2)))"
proof (intro conjI impI)
  assume "v \<noteq> []" "U v None = Some s" "scope m = Some x" "U x None = Some sc"
  then show "startUrlValidation U m v False =
        (if origin s = origin sc \<and> prefix (pathname sc) (pathname s) then Inr []
         else Inr (''Start URL needs to be within the scope: '' @ href sc))"
    by (simp add: startUrlValidation_def)
next
  assume "fetchJson mu = Inr m0" "resolveStartUrl U m0 du = Inr sh"
    "resolveScope U m0 du sh = Inr sch" "U sh None = Some s1" "U sch None = Some sc1"
    "U du None = Some d" "origin s1 = origin d"
  then show "obtainManifest U fetchJson mu du =
        (if origin s1 = origin sc1 \<and> prefix (pathname sc1) (pathname s1)
         then Inr (m0\<lparr>start_url := Some sh, scope := Some sch\<rparr>)
         else Inl OutOfScopeError)"
    by (simp add: obtainManifest_run)
next
  assume "obtainManifest U fetchJson mu du = Inr m'"
  then show "\<exists>a b s2 sc2. start_url m' = Some a \<and> scope m' = Some b
           \<and> U a None = Some s2 \<and> U b None = Some sc2
           \<and> origin s2 = origin sc2 \<and> prefix (pathname sc2) (pathname s2)"
    by (elim obtainManifest_accepted) auto
qed

text \<open>
  The scope \<^verbatim>\<open>/a\<close> contains the start URL \<^verbatim>\<open>/ab\<close>, on an edit and at load, and
  not \<^verbatim>\<open>/b\<close>.
\<close>

theorem scope_containment_witness:
  "startUrlValidation simpleURL
     (emptyManifest\<lparr>start_url := Some ''https://x.test/ab'', scope := Some ''https://x.test/a''\<rparr>)
     ''https://x.test/ab'' False = Inr []
   \<and> startUrlValidation simpleURL
     (emptyManifest\<lparr>start_url := Some ''https://x.test/ab'', scope := Some ''https://x.test/a''\<rparr>)
     ''https://x.test/b'' False = Inr ''Start URL needs to be within the scope: https://x.test/a''
   \<and> obtainManifest simpleURL
       (serve (emptyManifest\<lparr>start_url := Some ''/ab'', scope := Some ''/a''\<rparr>)
          ''https://x.test/manifest.json'')
       ''https://x.test/manifest.json'' ''https://x.test/app/page''
     = Inr (emptyManifest\<lparr>start_url := Some ''https://x.test/ab'',
                           scope := Some ''https://x.test/a''\<rparr>)"
proof -
  let ?m' = "emptyManifest\<lparr>start_url := Some ''https://x.test/ab'', scope := Some ''https://x.test/a''\<rparr>"
  let ?m0 = "emptyManifest\<lparr>start_url := Some ''/ab'', scope := Some ''/a''\<rparr>"
  let ?s = "\<lparr>href = ''https://x.test/ab'', origin = ''https://x.test'', pathname = ''/ab''\<rparr>"
  let ?t = "\<lparr>href = ''https://x.test/b'', origin = ''https://x.test'', pathname = ''/b''\<rparr>"
  let ?sc = "\<lparr>href = ''https://x.test/a'', origin = ''https://x.test'', pathname = ''/a''\<rparr>"
  let ?d = "\<lparr>href = ''https://x.test/app/page'', origin = ''https://x.test'', pathname = ''/app/page''\<rparr>"
  have s: "simpleURL ''https://x.test/ab'' None = Some ?s" by code_simp
  have t: "simpleURL ''https://x.test/b'' None = Some ?t" by code_simp
  have sc: "simpleURL ''https://x.test/a'' None = Some ?sc" by code_simp
  have d: "simpleURL ''https://x.test/app/page'' None = Some ?d" by code_simp
  have scm: "scope ?m' = Some ''https://x.test/a''" by simp
  have f: "serve ?m0 ''https://x.test/manifest.json'' ''https://x.test/manifest.json'' = Inr ?m0"
    by (simp add: serve_def)
  have rs: "resolveStartUrl simpleURL ?m0 ''https://x.test/app/page'' = Inr ''https://x.test/ab''"
    by code_simp
  have rc: "resolveScope simpleURL ?m0 ''https://x.test/app/page'' ''https://x.test/ab'' = Inr ''https://x.test/a''"
    by code_simp
  note T = scope_containment [where U = simpleURL and m = ?m' and x = "''https://x.test/a''"
      and sc = ?sc and fetchJson = "serve ?m0 ''https://x.test/manifest.json''"
      and mu = "''https://x.test/manifest.json''" and du = "''https://x.test/app/page''"
      and ?m0.0 = ?m0 and sh = "''https://x.test/ab''" and sch = "''https://x.test/a''"
      and ?s1.0 = ?s and ?sc1.0 = ?sc and d = ?d]
  from T [where v = "''https://x.test/ab''" and s = ?s] s sc scm
  have A: "startUrlValidation simpleURL ?m' ''https://x.test/ab'' False = Inr []"
    by simp
  from T [where v = "''https://x.test/b''" and s = ?t] t sc scm
  have B: "startUrlValidation simpleURL ?m' ''https://x.test/b'' False
             = Inr ''Start URL needs to be within the scope: https://x.test/a''"
    by simp
  from T [where v = "''https://x.test/b''" and s = ?t] f rs rc s sc d
  have C: "obtainManifest simpleURL (serve ?m0 ''https://x.test/manifest.json'')
             ''https://x.test/manifest.json'' ''https://x.test/app/page'' = Inr ?m'"
    by simp
  from A B C show ?thesis by simp
qed

section \<open>C3: the responses of the native peer\<close>




section \<open>C4: the origin of the start URL at load\<close>

text \<open>
  C4 as stated fails where the scope does not parse. The check of line 39 comes after the scope has been resolved (line 27) and the three
  URLs parsed. A manifest whose start URL is on another origin and whose scope does not
  parse fails with the \<^verbatim>\<open>TypeError\<close> of the URL constructor, not with the
  cross-origin error.
\<close>

theorem malformed_scope_counterexample:
  "obtainManifest simpleURL
     (serve (emptyManifest\<lparr>start_url := Some ''https://y.test/'', scope := Some ''https://''\<rparr>)
        ''https://x.test/manifest.json'')
     ''https://x.test/manifest.json'' ''https://x.test/app/page''
     = Inl (TypeError ''Invalid URL'')
   \<and> resolveStartUrl simpleURL
       (emptyManifest\<lparr>start_url := Some ''https://y.test/'', scope := Some ''https://''\<rparr>)
       ''https://x.test/app/page'' = Inr ''https://y.test/''
   \<and> map_option origin (simpleURL ''https://y.test/'' None) = Some ''https://y.test''
   \<and> map_option origin (simpleURL ''https://x.test/app/page'' None) = Some ''https://x.test''"
  by code_simp

text \<open>
  C4, amended: at load, once the start URL and the scope are resolved and parse, a start
  URL whose origin is not the document's makes loading fail with the cross-origin error,
  whatever the scope is (the check comes before the containment check). The validation
  of a user edit makes no check against the document: a value inside the scope is valid
  also when its origin is not the origin of a given document URL.
\<close>

theorem origin_binding_at_load:
  "(fetchJson mu = Inr m \<longrightarrow> resolveStartUrl U m du = Inr sh \<longrightarrow>
      resolveScope U m du sh = Inr sch \<longrightarrow>
      U sh None = Some s \<longrightarrow> U sch None = Some sc \<longrightarrow> U du None = Some d \<longrightarrow>
      origin s \<noteq> origin d \<longrightarrow>
      obtainManifest U fetchJson mu du = Inl CrossOriginStartUrlError)
   \<and> (v \<noteq> [] \<longrightarrow> U v None = Some s' \<longrightarrow> scope m' = Some x \<longrightarrow> U x None = Some sc' \<longrightarrow>
      U du' None = Some d' \<longrightarrow> origin s' \<noteq> origin d' \<longrightarrow>
      origin s' = origin sc' \<longrightarrow> prefix (pathname sc') (pathname s') \<longrightarrow>
      startUrlValidation U m' v False = Inr [])"
proof (intro conjI impI)
  assume "fetchJson mu = Inr m" "resolveStartUrl U m du = Inr sh"
    "resolveScope U m du sh = Inr sch" "U sh None = Some s" "U sch None = Some sc"
    "U du None = Some d" "origin s \<noteq> origin d"
  then show "obtainManifest U fetchJson mu du = Inl CrossOriginStartUrlError"
    by (simp add: obtainManifest_run)
next
  assume "v \<noteq> []" "U v None = Some s'" "scope m' = Some x" "U x None = Some sc'"
    "origin s' = origin sc'" "prefix (pathname sc') (pathname s')"
  then show "startUrlValidation U m' v False = Inr []"
    by (simp add: startUrlValidation_def)
qed

text \<open>
  A start URL on \<^verbatim>\<open>y.test\<close> for a page on \<^verbatim>\<open>x.test\<close> at load, and an edit judged
  against a scope on \<^verbatim>\<open>y.test\<close>.
\<close>

theorem origin_binding_at_load_witness:
  "obtainManifest simpleURL
     (serve (emptyManifest\<lparr>start_url := Some ''https://y.test/app/'', scope := Some ''/zone/''\<rparr>)
        ''https://x.test/manifest.json'')
     ''https://x.test/manifest.json'' ''https://x.test/app/page''
     = Inl (Error ''Start and document URL are not in the same origin'')
   \<and> startUrlValidation simpleURL
        (emptyManifest\<lparr>start_url := Some ''https://y.test/app/'',
                        scope := Some ''https://y.test/app/''\<rparr>)
        ''https://y.test/app/start'' False = Inr []"
proof -
  let ?m = "emptyManifest\<lparr>start_url := Some ''https://y.test/app/'', scope := Some ''/zone/''\<rparr>"
  let ?m' = "emptyManifest\<lparr>start_url := Some ''https://y.test/app/'',
                        scope := Some ''https://y.test/app/''\<rparr>"
  let ?s = "\<lparr>href = ''https://y.test/app/'', origin = ''https://y.test'', pathname = ''/app/''\<rparr>"
  let ?sc = "\<lparr>href = ''https://x.test/zone/'', origin = ''https://x.test'', pathname = ''/zone/''\<rparr>"
  let ?d = "\<lparr>href = ''https://x.test/app/page'', origin = ''https://x.test'', pathname = ''/app/page''\<rparr>"
  let ?v = "\<lparr>href = ''https://y.test/app/start'', origin = ''https://y.test'', pathname = ''/app/start''\<rparr>"
  have f: "serve ?m ''https://x.test/manifest.json'' ''https://x.test/manifest.json'' = Inr ?m"
    by (simp add: serve_def)
  have rs: "resolveStartUrl simpleURL ?m ''https://x.test/app/page'' = Inr ''https://y.test/app/''"
    by code_simp
  have rc: "resolveScope simpleURL ?m ''https://x.test/app/page'' ''https://y.test/app/''
              = Inr ''https://x.test/zone/''"
    by code_simp
  have s: "simpleURL ''https://y.test/app/'' None = Some ?s" by code_simp
  have sc: "simpleURL ''https://x.test/zone/'' None = Some ?sc" by code_simp
  have d: "simpleURL ''https://x.test/app/page'' None = Some ?d" by code_simp
  have v: "simpleURL ''https://y.test/app/start'' None = Some ?v" by code_simp
  have scm: "scope ?m' = Some ''https://y.test/app/''" by simp
  note T = origin_binding_at_load [where U = simpleURL
      and fetchJson = "serve ?m ''https://x.test/manifest.json''"
      and mu = "''https://x.test/manifest.json''" and du = "''https://x.test/app/page''"
      and m = ?m and sh = "''https://y.test/app/''" and sch = "''https://x.test/zone/''"
      and s = ?s and sc = ?sc and d = ?d
      and v = "''https://y.test/app/start''" and s' = ?v and m' = ?m'
      and x = "''https://y.test/app/''" and sc' = ?s
      and du' = "''https://x.test/app/page''" and d' = ?d]
  from T f rs rc s sc d v scm show ?thesis
    by (simp add: CrossOriginStartUrlError_def)
qed

section \<open>C5: a manifest without start URL and scope\<close>

text \<open>
  C5 as stated fails on the scope: for the page \<^verbatim>\<open>https://x.test/app/page\<close> the
  scope of a manifest without start URL and scope is
  \<^verbatim>\<open>https://x.test/app/\<close>, the result of resolving \<^verbatim>\<open>.\<close> against the start URL as
  line 30 does; it is not the document URL.
\<close>

theorem absent_members_counterexample:
  "obtainManifest simpleURL (serve emptyManifest ''https://x.test/manifest.json'')
     ''https://x.test/manifest.json'' ''https://x.test/app/page''
   = Inr (emptyManifest\<lparr>start_url := Some ''https://x.test/app/page'',
                         scope := Some ''https://x.test/app/''\<rparr>)
   \<and> Some ''https://x.test/app/'' \<noteq> Some ''https://x.test/app/page''"
  by code_simp

lemma resolvesToItself_newURL:
  "resolvesToItself U s b \<Longrightarrow> andThen (newURL U s (Some b)) (\<lambda>u. Inr (href u)) = Inr s"
  by (auto simp: resolvesToItself_def newURL_def split: option.splits)

text \<open>
  C5, amended: for every accepted manifest with \<open>start_url\<close> and \<open>scope\<close> both absent,
  the resolved \<open>start_url\<close> is the document URL and the resolved \<open>scope\<close> is \<^verbatim>\<open>.\<close>
  joined against it (equal to the document URL only where that join gives it back).
  Resolving the resolved manifest again, for the same document, returns it unchanged,
  provided the document URL and the resolved scope are in serialised form.
\<close>

theorem absent_start_url_and_scope:
  assumes fetched: "fetchJson mu = Inr m"
    and absent: "start_url m = None" "scope m = None"
    and accepted: "obtainManifest U fetchJson mu du = Inr m'"
  shows "start_url m' = Some du
         \<and> (\<exists>u. U ''.'' (Some du) = Some u \<and> scope m' = Some (href u))
         \<and> (\<forall>sch. scope m' = Some sch \<longrightarrow> resolvesToItself U du du \<longrightarrow>
                resolvesToItself U sch du \<longrightarrow> fetchAgain mu' = Inr m' \<longrightarrow>
                obtainManifest U fetchAgain mu' du = Inr m')"
  using accepted
proof (rule obtainManifest_accepted)
  fix m1 sh sch s sc d
  assume run: "fetchJson mu = Inr m1" "resolveStartUrl U m1 du = Inr sh"
    "resolveScope U m1 du sh = Inr sch" "U sh None = Some s" "U sch None = Some sc"
    "U du None = Some d" "origin s = origin d" "origin s = origin sc"
    "prefix (pathname sc) (pathname s)"
    and m': "m' = m1\<lparr>start_url := Some sh, scope := Some sch\<rparr>"
  from run(1) fetched have m1: "m1 = m" by simp
  from run(2) absent(1) have sh: "sh = du"
    by (simp add: resolveStartUrl_def m1)
  from run(3) absent(2) obtain u where u: "U ''.'' (Some du) = Some u" "sch = href u"
    by (auto simp: resolveScope_def m1 sh andThen_Inr_iff newURL_Inr_iff)
  have first: "start_url m' = Some du" by (simp add: m' sh)
  have second: "\<exists>u. U ''.'' (Some du) = Some u \<and> scope m' = Some (href u)"
    using u by (simp add: m')
  have third: "obtainManifest U fetchAgain mu' du = Inr m'"
    if self: "resolvesToItself U du du" "resolvesToItself U sch du"
      and again: "fetchAgain mu' = Inr m'" for fetchAgain mu'
  proof -
    have a: "resolveStartUrl U m' du = Inr du"
      using self(1) by (cases du) (simp_all add: resolveStartUrl_def m' sh resolvesToItself_newURL)
    have b: "resolveScope U m' du du = Inr sch"
    proof (cases sch)
      case Nil
      then show ?thesis using u by (simp add: resolveScope_def m')
    next
      case (Cons c cs)
      then show ?thesis
        using resolvesToItself_newURL [OF self(2)] by (simp add: resolveScope_def m')
    qed
    have p: "U du None = Some s"
      using run(4) by (simp add: sh)
    have "obtainManifest U fetchAgain mu' du =
            (if origin s \<noteq> origin s then Inl CrossOriginStartUrlError
             else if origin s \<noteq> origin sc \<or> \<not> prefix (pathname sc) (pathname s)
             then Inl OutOfScopeError
             else Inr (m'\<lparr>start_url := Some du, scope := Some sch\<rparr>))"
      using again a b p run(5) p by (rule obtainManifest_run)
    with run(8,9)
    have "obtainManifest U fetchAgain mu' du = Inr (m'\<lparr>start_url := Some du, scope := Some sch\<rparr>)"
      by simp
    then show ?thesis by (simp add: m' sh)
  qed
  from first second third show ?thesis by (simp add: m')
qed

text \<open>The page \<^verbatim>\<open>https://x.test/app/page\<close> again, resolved twice.\<close>

theorem absent_start_url_and_scope_witness:
  "obtainManifest simpleURL
     (serve (emptyManifest\<lparr>start_url := Some ''https://x.test/app/page'',
                             scope := Some ''https://x.test/app/''\<rparr>)
        ''https://x.test/manifest.json'')
     ''https://x.test/manifest.json'' ''https://x.test/app/page''
   = Inr (emptyManifest\<lparr>start_url := Some ''https://x.test/app/page'',
                         scope := Some ''https://x.test/app/''\<rparr>)
   \<and> map_option href (simpleURL ''.'' (Some ''https://x.test/app/page''))
     = Some ''https://x.test/app/''"
proof -
  let ?m' = "emptyManifest\<lparr>start_url := Some ''https://x.test/app/page'',
                             scope := Some ''https://x.test/app/''\<rparr>"
  have f: "serve emptyManifest ''https://x.test/manifest.json'' ''https://x.test/manifest.json''
             = Inr emptyManifest"
    by (simp add: serve_def)
  have a: "start_url emptyManifest = None" "scope emptyManifest = None"
    by (simp_all add: emptyManifest_def)
  have r: "obtainManifest simpleURL (serve emptyManifest ''https://x.test/manifest.json'')
             ''https://x.test/manifest.json'' ''https://x.test/app/page'' = Inr ?m'"
    by code_simp
  have sc: "scope ?m' = Some ''https://x.test/app/''" by simp
  have s1: "resolvesToItself simpleURL ''https://x.test/app/page'' ''https://x.test/app/page''"
    by code_simp
  have s2: "resolvesToItself simpleURL ''https://x.test/app/'' ''https://x.test/app/page''"
    by code_simp
  have g: "serve ?m' ''https://x.test/manifest.json'' ''https://x.test/manifest.json'' = Inr ?m'"
    by (simp add: serve_def)
  from absent_start_url_and_scope [OF f a r,
      where fetchAgain = "serve ?m' ''https://x.test/manifest.json''"
        and mu' = "''https://x.test/manifest.json''"] sc s1 s2 g
  show ?thesis by auto
qed

section \<open>C6: the override of categories and keywords\<close>

text \<open>
  A string without a comma is cut out of a joined list by the first comma, so on lists
  of such strings, neither of them empty, joining is injective.
\<close>

lemma join_split:
  assumes "CHR '','' \<notin> set x"
  shows "takeWhile (\<lambda>c. c \<noteq> CHR '','') (join '','' (x # xs)) = x"
    and "dropWhile (\<lambda>c. c \<noteq> CHR '','') (join '','' (x # xs))
           = (if xs = [] then [] else CHR '','' # join '','' xs)"
proof -
  have t: "takeWhile (\<lambda>c. c \<noteq> CHR '','') x = x" "dropWhile (\<lambda>c. c \<noteq> CHR '','') x = []"
    using assms by (auto simp: takeWhile_eq_all_conv)
  show "takeWhile (\<lambda>c. c \<noteq> CHR '','') (join '','' (x # xs)) = x"
    using assms by (cases xs) (simp_all add: takeWhile_append1 takeWhile_tail t)
  show "dropWhile (\<lambda>c. c \<noteq> CHR '','') (join '','' (x # xs))
           = (if xs = [] then [] else CHR '','' # join '','' xs)"
    using assms by (cases xs) (simp_all add: dropWhile_append3 dropWhile_append2 t)
qed

lemma join_comma_injective:
  assumes "\<forall>x \<in> set xs. CHR '','' \<notin> set x" and "\<forall>y \<in> set ys. CHR '','' \<notin> set y"
    and "xs \<noteq> []" and "ys \<noteq> []" and "join '','' xs = join '','' ys"
  shows "xs = ys"
  using assms
proof (induction xs arbitrary: ys)
  case Nil
  then show ?case by simp
next
  case (Cons x xs)
  then obtain y ys' where ys: "ys = y # ys'" by (cases ys) auto
  from Cons.prems ys have nx: "CHR '','' \<notin> set x" and ny: "CHR '','' \<notin> set y" by auto
  from Cons.prems(5) have eq: "join '','' (x # xs) = join '','' (y # ys')" by (simp add: ys)
  from arg_cong [OF eq, of "takeWhile (\<lambda>c. c \<noteq> CHR '','')"] have xy: "x = y"
    by (simp add: join_split(1) nx ny)
  from arg_cong [OF eq, of "dropWhile (\<lambda>c. c \<noteq> CHR '','')"]
  have rest: "(if xs = [] then [] else CHR '','' # join '','' xs)
                = (if ys' = [] then [] else CHR '','' # join '','' ys')"
    by (simp add: join_split(2) nx ny)
  show ?case
  proof (cases "xs = []")
    case True
    with rest have "ys' = []" by (simp split: if_splits)
    with True xy ys show ?thesis by simp
  next
    case False
    with rest have ne: "ys' \<noteq> []" and j: "join '','' xs = join '','' ys'"
      by (simp_all split: if_splits)
    from Cons.IH [OF _ _ False ne j] Cons.prems(1,2) ys have "xs = ys'" by simp
    with xy ys show ?thesis by simp
  qed
qed

text \<open>
  On such lists the comparison of line 255 is the comparison of the lists, and the
  request carries nothing when they are equal and the selection when they differ.
\<close>

lemma categories_override_on_plain_tags:
  assumes "submit_params m mu du st = Inr ps" and "categories m = Some mc"
    and "\<forall>x \<in> set (web_app_categories st). CHR '','' \<notin> set x"
    and "\<forall>y \<in> set mc. CHR '','' \<notin> set y"
    and "web_app_categories st \<noteq> []" and "mc \<noteq> []"
  shows "p_categories ps = (if web_app_categories st = mc then [] else web_app_categories st)"
proof -
  have "join '','' (web_app_categories st) = join '','' mc \<longleftrightarrow> web_app_categories st = mc"
    using join_comma_injective [OF assms(3,4,5,6)] by auto
  with assms(1,2) show ?thesis
    by (auto simp: submit_params_def Let_def split: option.splits)
qed

text \<open>
  C6 says that the selection is compared with the manifest's list element by element,
  and that a selection that differs is sent in full. Lines 255 and 259 compare the two
  \<^verbatim>\<open>toString()\<close> results, which join the elements with commas. With
  \<^verbatim>\<open>categories: ["news,sports"]\<close> in the manifest and the two tags \<^verbatim>\<open>news\<close> and
  \<^verbatim>\<open>sports\<close> selected, both sides are the string \<^verbatim>\<open>news,sports\<close>, and the request
  carries no categories although the selection differs from the manifest's list.
\<close>

theorem categories_compared_as_joined_strings:
  "submit_params (emptyManifest\<lparr>categories := Some [''news,sports''], keywords := Some []\<rparr>)
     ''https://x.test/manifest.json'' ''https://x.test/app/page''
     (markup\<lparr>web_app_categories := [''news'', ''sports'']\<rparr>)
   = Inr \<lparr>p_manifest_url = ''https://x.test/manifest.json'',
          p_document_url = ''https://x.test/app/page'', p_start_url = None,
          p_profile = None, p_name = None, p_description = None,
          p_categories = [], p_keywords = []\<rparr>
   \<and> [''news'', ''sports''] \<noteq> [''news,sports'']"
  by (simp add: submit_params_def emptyManifest_def markup_def orNull_def)

section \<open>C7: a failed installation\<close>

text \<open>
  C7 as stated fails on the submit button. The \<^verbatim>\<open>catch\<close> block of lines 292 to 297
  shows the error and does nothing else: the
  submit button, disabled at line 242, stays disabled. Here the form was ready, with the
  button enabled, and the peer answers with an error.
\<close>

theorem failed_install_counterexample:
  "fst (submit_onclick (replies (reply ''Error'' (JString ''boom'')))
         (emptyManifest\<lparr>categories := Some [], keywords := Some []\<rparr>)
         ''https://x.test/manifest.json'' ''https://x.test/app/page''
         (formReady (emptyManifest\<lparr>categories := Some [], keywords := Some []\<rparr>)))
   = (formReady (emptyManifest\<lparr>categories := Some [], keywords := Some []\<rparr>))
       \<lparr>submit_disabled := True, submit_innerText := ''Installing web app...'',
        error_text := ''boom'', error_toast_shown := True\<rparr>
   \<and> \<not> submit_disabled (formReady (emptyManifest\<lparr>categories := Some [], keywords := Some []\<rparr>))"
  by (simp add: submit_onclick_def submit_params_def formReady_def initializeForm_def
      emptyManifest_def markup_def orNull_def replies_def reply_def errorMessage_def Let_def)

text \<open>
  C7, amended: for every \<^verbatim>\<open>InstallSite\<close> call that fails (the message is rejected, the
  peer reports an error, the response type is not the expected one, or reading the
  response throws), the error's message is shown in the toast, and the submit control
  stays disabled with the label \<^verbatim>\<open>Installing web app...\<close>; nothing else of the form
  changes.
\<close>

theorem failed_install:
  assumes "form_valid st" and "submit_params m mu du st = Inr ps"
    and "andThen (sendNativeMessage (InstallSite ps)) (expectResponse ''SiteInstalled'') = Inl err"
  shows "submit_onclick sendNativeMessage m mu du st
           = (st\<lparr>submit_disabled := True, submit_innerText := ''Installing web app...'',
                 error_text := message err, error_toast_shown := True\<rparr>, None)"
  using assms(3)
  by (simp add: submit_onclick_expectResponse [OF assms(1,2)] Let_def)

text \<open>
  A response of an unexpected type, on the form as \<^verbatim>\<open>initializeForm\<close> leaves it,
  with the submit button enabled.
\<close>

theorem failed_install_witness:
  "submit_onclick (replies (reply ''Unexpected'' JNull))
     (emptyManifest\<lparr>categories := Some [], keywords := Some []\<rparr>)
     ''https://x.test/manifest.json'' ''https://x.test/app/page''
     (formReady (emptyManifest\<lparr>categories := Some [], keywords := Some []\<rparr>))
   = ((formReady (emptyManifest\<lparr>categories := Some [], keywords := Some []\<rparr>))
        \<lparr>submit_disabled := True, submit_innerText := ''Installing web app...'',
         error_text := ''Received invalid response type: Unexpected'',
         error_toast_shown := True\<rparr>, None)
   \<and> \<not> submit_disabled (formReady (emptyManifest\<lparr>categories := Some [], keywords := Some []\<rparr>))"
proof -
  let ?m = "emptyManifest\<lparr>categories := Some [], keywords := Some []\<rparr>"
  let ?ps = "\<lparr>p_manifest_url = ''https://x.test/manifest.json'',
              p_document_url = ''https://x.test/app/page'', p_start_url = None,
              p_profile = Some ''01'', p_name = None, p_description = None,
              p_categories = [], p_keywords = []\<rparr>"
  let ?peer = "replies (reply ''Unexpected'' JNull)"
  have v: "form_valid (formReady ?m)"
    by (simp add: formReady_def initializeForm_def markup_def Let_def)
  have en: "\<not> submit_disabled (formReady ?m)"
    by (simp add: formReady_def initializeForm_def markup_def Let_def)
  have ps: "submit_params ?m ''https://x.test/manifest.json'' ''https://x.test/app/page''
              (formReady ?m) = Inr ?ps"
    by (simp add: submit_params_def formReady_def initializeForm_def markup_def
        emptyManifest_def orNull_def Let_def)
  have f: "andThen (?peer (InstallSite ?ps)) (expectResponse ''SiteInstalled'')
             = Inl (Error ''Received invalid response type: Unexpected'')"
    by (simp add: replies_def reply_def expectResponse_def ProtocolMismatchError_def)
  from failed_install [where sendNativeMessage = ?peer and st = "formReady ?m" and m = ?m
      and mu = "''https://x.test/manifest.json''" and du = "''https://x.test/app/page''"
      and ps = ?ps and err = "Error ''Received invalid response type: Unexpected''"] v ps f en
  show ?thesis by simp
qed

section \<open>C8: the profile created in the dialog\<close>

text \<open>
  \<^verbatim>\<open>lastProfileSelection\<close> is assigned by the \<^verbatim>\<open>change\<close> listener alone; adding the
  new option from the script selects it without that listener running.
\<close>

lemma new_profile_create_keeps_last_selection:
  "lastProfileSelection (fst (new_profile_create sendNativeMessage st)) = lastProfileSelection st"
  by (simp add: new_profile_create_def Let_def split: sum.splits)

text \<open>
  C8 says that a profile that was created is appended, selected and recorded as the last
  selection, so that a later cancel of the dialog goes back to it. The form starts with
  the profile \<^verbatim>\<open>01\<close>; the user creates the profile \<^verbatim>\<open>02\<close>. It is appended and
  selected, and \<^verbatim>\<open>lastProfileSelection\<close> is still \<^verbatim>\<open>01\<close>: when the user opens the
  dialog once more and cancels, the select goes back to \<^verbatim>\<open>01\<close>.
\<close>

theorem created_profile_not_recorded:
  "profile_options profileCreated
     = [(''Default'', ''01''), (''Create a new profile'', ''create-new-profile''),
        (''Work'', ''02'')]
   \<and> profile_value profileCreated = ''02''
   \<and> lastProfileSelection profileCreated = ''01''
   \<and> profile_value (new_profile_cancel (selectProfile ''create-new-profile'' profileCreated))
     = ''01''"
  by (simp add: profileCreated_def formReady_def initializeForm_def new_profile_create_def
      selectProfile_def setProfileValue_def profile_change_def new_profile_cancel_def
      replies_def reply_def markup_def emptyManifest_def orNull_def Let_def)

section \<open>C9: a manifest without categories or keywords\<close>

lemma submit_params_absent_list:
  "categories m = None \<or> keywords m = None \<Longrightarrow> \<exists>e. submit_params m mu du st = Inl e"
  by (auto simp: submit_params_def Let_def split: option.splits)

text \<open>
  C9 says that an absent \<open>categories\<close> or \<open>keywords\<close> counts as the empty sequence, so
  that assembling the request never fails. Lines 110 and 113 do read
  \<^verbatim>\<open>manifest.categories || []\<close>, and the form of a manifest without categories starts
  with no tag; lines 254 and 255 call \<^verbatim>\<open>manifest.categories.toString()\<close> with no such
  default. On a valid form the listener ends with a \<^verbatim>\<open>TypeError\<close> before anything is
  sent, and leaves the submit button disabled.
\<close>

theorem submit_without_categories_throws:
  "submit_onclick (replies (reply ''SiteInstalled'' JNull))
     emptyManifest ''https://x.test/manifest.json'' ''https://x.test/app/page''
     (formReady emptyManifest)
   = ((formReady emptyManifest)
         \<lparr>submit_disabled := True, submit_innerText := ''Installing web app...''\<rparr>,
      Some (TypeError ''manifestCategories is undefined''))
   \<and> web_app_categories (formReady emptyManifest) = []
   \<and> form_valid (formReady emptyManifest)"
  by (simp add: submit_onclick_def submit_params_def formReady_def initializeForm_def
      emptyManifest_def markup_def Let_def)

section \<open>C10: what resolution changes in the manifest\<close>

text \<open>
  C10: the manifest that \<^verbatim>\<open>obtainManifest\<close> returns is the fetched one with
  \<open>start_url\<close> and \<open>scope\<close> replaced, each by a string that parses as a URL without a
  base; \<open>name\<close>, \<open>short_name\<close>, \<open>description\<close>, \<open>categories\<close>, \<open>keywords\<close> and every
  other member are the fetched ones.
\<close>

theorem obtainManifest_frame:
  assumes "fetchJson mu = Inr m" and "obtainManifest U fetchJson mu du = Inr m'"
  shows "name m' = name m \<and> short_name m' = short_name m \<and> description m' = description m
         \<and> categories m' = categories m \<and> keywords m' = keywords m
         \<and> manifest.more m' = manifest.more m
         \<and> (\<exists>a b. U a None \<noteq> None \<and> U b None \<noteq> None
                \<and> m' = m\<lparr>start_url := Some a, scope := Some b\<rparr>)"
  using assms(2)
proof (rule obtainManifest_accepted)
  fix m1 sh sch s sc d
  assume "fetchJson mu = Inr m1" "U sh None = Some s" "U sch None = Some sc"
    "m' = m1\<lparr>start_url := Some sh, scope := Some sch\<rparr>"
  with assms(1) show ?thesis by auto
qed

text \<open>A manifest with a name, a category and a relative start URL.\<close>

theorem obtainManifest_frame_witness:
  "name (emptyManifest\<lparr>name := Some ''App'', categories := Some [''news''],
                       start_url := Some ''https://x.test/app/start'',
                       scope := Some ''https://x.test/app/''\<rparr>) = Some ''App''
   \<and> categories (emptyManifest\<lparr>name := Some ''App'', categories := Some [''news''],
                       start_url := Some ''https://x.test/app/start'',
                       scope := Some ''https://x.test/app/''\<rparr>) = Some [''news'']
   \<and> obtainManifest simpleURL
        (serve (emptyManifest\<lparr>name := Some ''App'', categories := Some [''news''],
                               start_url := Some ''start''\<rparr>)
           ''https://x.test/manifest.json'')
        ''https://x.test/manifest.json'' ''https://x.test/app/page''
      = Inr (emptyManifest\<lparr>name := Some ''App'', categories := Some [''news''],
                       start_url := Some ''https://x.test/app/start'',
                       scope := Some ''https://x.test/app/''\<rparr>)"
proof -
  let ?m = "emptyManifest\<lparr>name := Some ''App'', categories := Some [''news''],
                               start_url := Some ''start''\<rparr>"
  let ?m' = "emptyManifest\<lparr>name := Some ''App'', categories := Some [''news''],
                       start_url := Some ''https://x.test/app/start'',
                       scope := Some ''https://x.test/app/''\<rparr>"
  have f: "serve ?m ''https://x.test/manifest.json'' ''https://x.test/manifest.json'' = Inr ?m"
    by (simp add: serve_def)
  have r: "obtainManifest simpleURL (serve ?m ''https://x.test/manifest.json'')
             ''https://x.test/manifest.json'' ''https://x.test/app/page'' = Inr ?m'"
    by code_simp
  from obtainManifest_frame [OF f r] r show ?thesis by simp
qed

end
